theory Spec2Isabelle
  imports Complex_Main "HOL-Library.Multiset"
begin

section \<open>Numbers\<close>

text \<open>
  The Python sources compute with \<^verbatim>\<open>int\<close> and \<^verbatim>\<open>float\<close>. An \<^verbatim>\<open>int\<close> is an
  \<^typ>\<open>int\<close>. A \<^verbatim>\<open>float\<close> is taken to be the real number it denotes and float
  arithmetic to be exact: a finite float is a \<^typ>\<open>real\<close>, and the rounding error,
  overflow and the special values of IEEE arithmetic are not part of this development.
  The one special value the sources write down themselves, \<^verbatim>\<open>float('inf')\<close> in
  \<^verbatim>\<open>analyze_profile\<close>, is a value of its own (\<open>Infinity\<close> of \<open>pyfloat\<close> below).
\<close>

text \<open>
  \<^verbatim>\<open>round(x, n)\<close> on a float rounds the value of \<open>x\<close> to \<open>n\<close> decimals, a tie going
  to the even neighbour.
\<close>

definition round_half_even :: "real \<Rightarrow> int" where
  "round_half_even x =
     (let f = \<lfloor>x\<rfloor>; d = x - of_int f
      in if d < 1 / 2 then f
         else if 1 / 2 < d then f + 1
         else if even f then f else f + 1)"

definition py_round :: "real \<Rightarrow> nat \<Rightarrow> real" where
  "py_round x n = of_int (round_half_even (x * 10 ^ n)) / 10 ^ n"

text \<open>\<^verbatim>\<open>round(i, n)\<close> on an int with \<open>n \<ge> 0\<close> returns the int itself.\<close>

definition py_round_int :: "int \<Rightarrow> nat \<Rightarrow> int" where
  "py_round_int i n = i"

section \<open>user\_profile.py\<close>

record UserProfile =
  age :: int
  location :: string
  annual_income :: real
  current_savings :: real
  monthly_expenses :: real
  total_debt :: real
  career_field :: string
  years_to_retirement :: int
  expected_income_growth :: real
  marital_status :: string
  num_dependents :: int
  major_life_goals :: "string list"
  risk_tolerance :: string
  investment_horizon :: int
  preferred_sectors :: "string list"
  other_notes :: string

section \<open>ai\_advisor.py: allocation\<close>

text \<open>The dictionaries \<^verbatim>\<open>_determine_allocation\<close> returns, one record per nesting level.\<close>

record breakdown =
  large_cap :: real
  mid_cap :: real
  small_cap :: real
  international :: real
  bd_bonds :: real

record allocation =
  stocks :: int
  bonds :: int
  breakdown :: breakdown

definition risk_adjustments :: "string \<rightharpoonup> int" where
  "risk_adjustments =
     [''conservative'' \<mapsto> - 15, ''moderate'' \<mapsto> 0, ''aggressive'' \<mapsto> 15]"

text \<open>\<^verbatim>\<open>d.get(k, default)\<close>\<close>

definition dict_get :: "('k \<rightharpoonup> 'v) \<Rightarrow> 'k \<Rightarrow> 'v \<Rightarrow> 'v" where
  "dict_get d k dflt = (case d k of None \<Rightarrow> dflt | Some v \<Rightarrow> v)"

text \<open>
  \<open>stock_percentage\<close> and \<open>bond_percentage\<close> are ints (\<open>age\<close> is one), so their
  \<^verbatim>\<open>round(_, 1)\<close> is the int itself; the four products with a float are floats.
\<close>

definition determine_allocation :: "UserProfile \<Rightarrow> allocation" where
  "determine_allocation profile =
     (let base_stock_percentage = 110 - age profile;
          adjustment = dict_get risk_adjustments (risk_tolerance profile) 0;
          stock_percentage = max 30 (min 90 (base_stock_percentage + adjustment));
          bond_percentage = 100 - stock_percentage;
          large_cap = of_int stock_percentage * 0.60;
          mid_cap = of_int stock_percentage * 0.25;
          small_cap = of_int stock_percentage * 0.10;
          international = of_int stock_percentage * 0.05
      in \<lparr> stocks = py_round_int stock_percentage 1,
           bonds = py_round_int bond_percentage 1,
           breakdown = \<lparr> large_cap = py_round large_cap 1,
                         mid_cap = py_round mid_cap 1,
                         small_cap = py_round small_cap 1,
                         international = py_round international 1,
                         bd_bonds = of_int (py_round_int bond_percentage 1) \<rparr> \<rparr>)"

text \<open>The adjustment as the specification words it, for comparison with the table lookup.\<close>

definition spec_adjustment :: "string \<Rightarrow> int" where
  "spec_adjustment r =
     (if r = ''conservative'' then - 15
      else if r = ''aggressive'' then 15
      else 0)"

definition clamp :: "int \<Rightarrow> int \<Rightarrow> int \<Rightarrow> int" where
  "clamp x lo hi = (if x < lo then lo else if hi < x then hi else x)"

section \<open>ai\_advisor.py: stock scoring\<close>

text \<open>
  A stock record is a dictionary of the shape \<^verbatim>\<open>get_stock_info\<close> builds, with the keys
  the advisor reads. The keys read by subscript (\<^verbatim>\<open>stock['sector']\<close>) are fields that
  are always there: \<open>ticker\<close>, \<open>name\<close> and \<open>sector\<close> are strings, and \<open>current_price\<close>,
  \<open>dividend_yield\<close> and \<open>pe_ratio\<close> are a number or \<^verbatim>\<open>None\<close>. The keys read only with
  \<^verbatim>\<open>stock.get(key, default)\<close>, \<open>beta\<close> and \<open>market_cap\<close>, are a number, or \<open>None\<close> when the
  key is missing.
\<close>

record stock =
  ticker :: string
  name :: string
  sector :: string
  current_price :: "real option"
  dividend_yield :: "real option"
  pe_ratio :: "real option"
  beta :: "real option"
  market_cap :: "real option"

text \<open>\<^verbatim>\<open>str.lower()\<close>: the ASCII capitals become small letters, every other character stays.\<close>

definition lower_char :: "char \<Rightarrow> char" where
  "lower_char c =
     (case map_of (zip ''ABCDEFGHIJKLMNOPQRSTUVWXYZ'' ''abcdefghijklmnopqrstuvwxyz'') c of
        None \<Rightarrow> c
      | Some l \<Rightarrow> l)"

definition lower :: "string \<Rightarrow> string" where
  "lower s = map lower_char s"

text \<open>
  \<^verbatim>\<open>v and v > c\<close> for a value that is \<^verbatim>\<open>None\<close> or a number: \<^verbatim>\<open>None\<close> and \<open>0\<close> are
  falsy, and the comparison is made on a truthy value only.
\<close>

definition truthy_and :: "real option \<Rightarrow> (real \<Rightarrow> bool) \<Rightarrow> bool" where
  "truthy_and v cond = (case v of None \<Rightarrow> False | Some x \<Rightarrow> x \<noteq> 0 \<and> cond x)"

text \<open>The value of \<open>score\<close> when \<^verbatim>\<open>_score_stock\<close> reaches its \<^verbatim>\<open>return\<close>.\<close>

definition score_before_return :: "stock \<Rightarrow> UserProfile \<Rightarrow> real" where
  "score_before_return stock profile =
     (let score = 50.0;
          score = (if lower (sector stock) \<in> set (map lower (preferred_sectors profile))
                   then score + 15 else score);
          beta = (case beta stock of None \<Rightarrow> 1.0 | Some b \<Rightarrow> b);
          score =
            (if risk_tolerance profile = ''conservative'' then
               (let score = (if beta < 0.8 then score + 10
                             else if beta > 1.2 then score - 10
                             else score)
                in if truthy_and (dividend_yield stock) (\<lambda>d. d > 0.02)
                   then score + 15 else score)
             else if risk_tolerance profile = ''aggressive'' then
               (let score = (if beta > 1.2 then score + 10 else score)
                in score + 5)
             else
               (let score = (if 0.8 \<le> beta \<and> beta \<le> 1.2 then score + 10 else score)
                in if truthy_and (dividend_yield stock) (\<lambda>d. d > 0.015)
                   then score + 10 else score));
          pe_ratio = pe_ratio stock;
          score = (if truthy_and pe_ratio (\<lambda>pe. 10 \<le> pe \<and> pe \<le> 25) then score + 10
                   else if truthy_and pe_ratio (\<lambda>pe. pe > 40) then score - 5
                   else score);
          market_cap = (case market_cap stock of None \<Rightarrow> 0 | Some m \<Rightarrow> m);
          score = (if market_cap > 100000000000 then
                     (if risk_tolerance profile = ''conservative'' then score + 10 else score)
                   else if market_cap < 10000000000 then
                     (if risk_tolerance profile = ''aggressive'' then score + 5 else score)
                   else score)
      in score)"

definition score_stock :: "stock \<Rightarrow> UserProfile \<Rightarrow> real" where
  "score_stock stock profile = py_round (score_before_return stock profile) 2"

text \<open>The score as the specification words it: a base of 50 and a sum of adjustments.\<close>

definition bonus :: "bool \<Rightarrow> real \<Rightarrow> real" where
  "bonus c pts = (if c then pts else 0)"

definition spec_beta :: "stock \<Rightarrow> real" where
  "spec_beta s = (case beta s of None \<Rightarrow> 1.0 | Some b \<Rightarrow> b)"

definition spec_dividend_yield :: "stock \<Rightarrow> real" where
  "spec_dividend_yield s = (case dividend_yield s of None \<Rightarrow> 0 | Some d \<Rightarrow> d)"

definition spec_pe_ratio :: "stock \<Rightarrow> real" where
  "spec_pe_ratio s = (case pe_ratio s of None \<Rightarrow> 0 | Some pe \<Rightarrow> pe)"

definition spec_market_cap :: "stock \<Rightarrow> real" where
  "spec_market_cap s = (case market_cap s of None \<Rightarrow> 0 | Some m \<Rightarrow> m)"

definition spec_score :: "stock \<Rightarrow> UserProfile \<Rightarrow> real" where
  "spec_score s p =
     50
     + bonus (lower (sector s) \<in> lower ` set (preferred_sectors p)) 15
     + (if risk_tolerance p = ''conservative'' then
          bonus (spec_beta s < 0.8) 10 + bonus (spec_beta s > 1.2) (- 10)
          + bonus (spec_dividend_yield s > 0.02) 15
        else if risk_tolerance p = ''aggressive'' then
          bonus (spec_beta s > 1.2) 10 + 5
        else
          bonus (0.8 \<le> spec_beta s \<and> spec_beta s \<le> 1.2) 10
          + bonus (spec_dividend_yield s > 0.015) 10)
     + bonus (10 \<le> spec_pe_ratio s \<and> spec_pe_ratio s \<le> 25) 10
     + bonus (spec_pe_ratio s > 40) (- 5)
     + bonus (spec_market_cap s > 100000000000 \<and> risk_tolerance p = ''conservative'') 10
     + bonus (spec_market_cap s < 10000000000 \<and> risk_tolerance p = ''aggressive'') 5"

text \<open>The format specification \<^verbatim>\<open>:.2f\<close>: two decimals, a tie going to the even neighbour.\<close>

definition digit_char :: "nat \<Rightarrow> char" where
  "digit_char d = ''0123456789'' ! d"

function nat_to_str :: "nat \<Rightarrow> string" where
  "nat_to_str n =
     (if n < 10 then [digit_char n]
      else nat_to_str (n div 10) @ [digit_char (n mod 10)])"
  by pat_completeness auto
termination
  by (relation "measure id") auto

declare nat_to_str.simps [simp del]

definition format_2f :: "real \<Rightarrow> string" where
  "format_2f x =
     (let n = nat (round_half_even (\<bar>x\<bar> * 100));
          digits = nat_to_str (n div 100) @ ''.''
                   @ [digit_char (n div 10 mod 10), digit_char (n mod 10)]
      in if x < 0 then ''-'' @ digits else digits)"

text \<open>\<^verbatim>\<open>sep.join(xs)\<close>\<close>

fun join :: "string \<Rightarrow> string list \<Rightarrow> string" where
  "join sep [] = []"
| "join sep [x] = x"
| "join sep (x # y # ys) = x @ sep @ join sep (y # ys)"

definition generate_rationale :: "stock \<Rightarrow> UserProfile \<Rightarrow> string" where
  "generate_rationale stock profile =
     (let reasons = [];
          reasons = (if lower (sector stock) \<in> set (map lower (preferred_sectors profile))
                     then reasons @ [''Matches your interest in '' @ sector stock]
                     else reasons);
          reasons = (case dividend_yield stock of
                       None \<Rightarrow> reasons
                     | Some d \<Rightarrow>
                         if d \<noteq> 0 \<and> d > 0.03
                         then reasons @ [''Strong dividend yield of ''
                                @ format_2f (d * 100) @ ''%'']
                         else reasons);
          reasons = (if (case beta stock of None \<Rightarrow> 1.0 | Some b \<Rightarrow> b) < 0.9
                        \<and> risk_tolerance profile = ''conservative''
                     then reasons @ [''Lower volatility matches your risk tolerance'']
                     else reasons);
          reasons = (if (case beta stock of None \<Rightarrow> 1.0 | Some b \<Rightarrow> b) > 1.1
                        \<and> risk_tolerance profile = ''aggressive''
                     then reasons @ [''Higher growth potential for aggressive strategy'']
                     else reasons);
          pe_ratio = pe_ratio stock;
          reasons = (if truthy_and pe_ratio (\<lambda>pe. 10 \<le> pe \<and> pe \<le> 20)
                     then reasons @ [''Reasonable valuation'']
                     else reasons);
          reasons = (if reasons = []
                     then reasons @ [''Solid fundamentals for diversified portfolio'']
                     else reasons)
      in join ''; '' reasons)"

record recommendation =
  rec_ticker :: string
  rec_name :: string
  rec_sector :: string
  rec_current_price :: "real option"
  rec_dividend_yield :: "real option"
  rec_pe_ratio :: "real option"
  rec_score :: real
  rec_rationale :: string

text \<open>The dictionary appended for a stock whose score is \<open>score\<close>.\<close>

definition recommendation_of :: "stock \<Rightarrow> UserProfile \<Rightarrow> real \<Rightarrow> recommendation" where
  "recommendation_of stock profile score =
     \<lparr> rec_ticker = ticker stock,
       rec_name = name stock,
       rec_sector = sector stock,
       rec_current_price = current_price stock,
       rec_dividend_yield = dividend_yield stock,
       rec_pe_ratio = pe_ratio stock,
       rec_score = score,
       rec_rationale = generate_rationale stock profile \<rparr>"

text \<open>
  The \<^verbatim>\<open>for stock in stock_data\<close> loop: an entry that is \<^verbatim>\<open>None\<close> is skipped, and a
  stock is appended when its score is positive.
\<close>

fun recommendations_loop :: "UserProfile \<Rightarrow> stock option list \<Rightarrow> recommendation list" where
  "recommendations_loop profile [] = []"
| "recommendations_loop profile (None # stock_data) = recommendations_loop profile stock_data"
| "recommendations_loop profile (Some stock # stock_data) =
     (let score = score_stock stock profile
      in if score > 0
         then recommendation_of stock profile score # recommendations_loop profile stock_data
         else recommendations_loop profile stock_data)"

text \<open>
  \<^verbatim>\<open>xs.sort(key=f, reverse=True)\<close>. The sort is stable; with \<^verbatim>\<open>reverse=True\<close> the list is
  reversed, sorted in ascending order of the key and reversed again, so that elements
  with equal keys keep their original order.
\<close>

definition py_sort_reverse :: "('a \<Rightarrow> real) \<Rightarrow> 'a list \<Rightarrow> 'a list" where
  "py_sort_reverse f xs = rev (sort_key f (rev xs))"

text \<open>\<^verbatim>\<open>xs[:n]\<close>: a negative \<open>n\<close> counts from the end of the list.\<close>

definition py_slice_to :: "'a list \<Rightarrow> int \<Rightarrow> 'a list" where
  "py_slice_to xs n =
     (if n < 0 then take (nat (int (length xs) + n)) xs else take (nat n) xs)"

definition generate_stock_recommendations ::
  "UserProfile \<Rightarrow> stock option list \<Rightarrow> int \<Rightarrow> recommendation list" where
  "generate_stock_recommendations profile stock_data num_picks =
     (let recommendations = recommendations_loop profile stock_data;
          recommendations = py_sort_reverse rec_score recommendations
      in py_slice_to recommendations num_picks)"

text \<open>The candidates of a list: its entries that are not \<^verbatim>\<open>None\<close>, in order.\<close>

fun candidates :: "'a option list \<Rightarrow> 'a list" where
  "candidates [] = []"
| "candidates (None # xs) = candidates xs"
| "candidates (Some x # xs) = x # candidates xs"

definition positively_scored :: "UserProfile \<Rightarrow> stock option list \<Rightarrow> recommendation list" where
  "positively_scored p stock_data =
     map (\<lambda>s. recommendation_of s p (score_stock s p))
       (filter (\<lambda>s. score_stock s p > 0) (candidates stock_data))"

section \<open>ai\_advisor.py: profile analysis\<close>



datatype py_error = TypeError | IndexError | ZeroDivisionError








section \<open>demo.py\<close>

text \<open>Two of the profiles of \<^verbatim>\<open>get_demo_profile\<close>, used below as concrete inputs.\<close>

definition demo_moderate :: UserProfile where
  "demo_moderate =
     \<lparr> age = 38,
       location = ''Chicago, IL'',
       annual_income = 125000,
       current_savings = 180000,
       monthly_expenses = 5500,
       total_debt = 280000,
       career_field = ''Marketing Manager'',
       years_to_retirement = 27,
       expected_income_growth = 3.5,
       marital_status = ''married'',
       num_dependents = 2,
       major_life_goals =
         [''Save for children's college education'', ''Pay off mortgage early'',
          ''Comfortable retirement'', ''Family vacations''],
       risk_tolerance = ''moderate'',
       investment_horizon = 25,
       preferred_sectors = [''consumer'', ''healthcare'', ''technology''],
       other_notes = ''Family-oriented, balanced approach to investing'' \<rparr>"


text \<open>
  A stock record of the shape \<^verbatim>\<open>get_stock_info\<close> returns: a volatile, richly valued
  company that pays no dividend.
\<close>

definition volatile_stock :: stock where
  "volatile_stock =
     \<lparr> ticker = ''XYZ'',
       name = ''XYZ Corp'',
       sector = ''Energy'',
       current_price = Some 20,
       dividend_yield = Some 0,
       pe_ratio = Some 55,
       beta = Some 1.6,
       market_cap = Some 50000000000 \<rparr>"

section \<open>financial\_projections.py\<close>

text \<open>The two attributes \<^verbatim>\<open>FinancialProjector.__init__\<close> sets.\<close>

definition inflation_rate :: real where
  "inflation_rate = 0.03"

definition market_return_estimates :: "string \<rightharpoonup> real" where
  "market_return_estimates =
     [''conservative'' \<mapsto> 0.05, ''moderate'' \<mapsto> 0.07, ''aggressive'' \<mapsto> 0.09]"

text \<open>\<^verbatim>\<open>range(n)\<close>: the years \<open>0, \<dots>, n - 1\<close>, none when \<open>n \<le> 0\<close>.\<close>

definition py_range :: "int \<Rightarrow> nat list" where
  "py_range n = [0..<nat n]"

text \<open>The default of the parameter \<^verbatim>\<open>years\<close>, shared by the four projections.\<close>

definition horizon :: "UserProfile \<Rightarrow> int option \<Rightarrow> int" where
  "horizon profile years =
     (case years of None \<Rightarrow> min (years_to_retirement profile) 30 | Some y \<Rightarrow> y)"

subsection \<open>project\_net\_worth\<close>

record net_worth_row =
  nw_year :: int
  nw_age :: int
  nw_net_worth :: real
  nw_annual_income :: real
  nw_annual_expenses :: real
  nw_annual_savings :: real

text \<open>The four variables the loop of \<^verbatim>\<open>project_net_worth\<close> updates.\<close>

record nw_state =
  current_net_worth :: real
  st_annual_income :: real
  st_annual_expenses :: real
  st_annual_savings :: real

definition net_worth_entry :: "UserProfile \<Rightarrow> nat \<Rightarrow> nw_state \<Rightarrow> net_worth_row" where
  "net_worth_entry profile year st =
     \<lparr> nw_year = int year,
       nw_age = age profile + int year,
       nw_net_worth = py_round (current_net_worth st) 2,
       nw_annual_income = py_round (st_annual_income st) 2,
       nw_annual_expenses = py_round (st_annual_expenses st) 2,
       nw_annual_savings = py_round (st_annual_savings st) 2 \<rparr>"

fun net_worth_loop ::
  "UserProfile \<Rightarrow> real \<Rightarrow> nat list \<Rightarrow> nw_state \<Rightarrow> net_worth_row list" where
  "net_worth_loop profile expected_return [] st = []"
| "net_worth_loop profile expected_return (year # years) st =
     (let st = (if year > 0 then
                  (let annual_income =
                         st_annual_income st * (1 + expected_income_growth profile / 100);
                       annual_expenses = st_annual_expenses st * (1 + inflation_rate);
                       annual_savings = annual_income - annual_expenses
                   in st\<lparr> st_annual_income := annual_income,
                          st_annual_expenses := annual_expenses,
                          st_annual_savings := annual_savings \<rparr>)
                else st);
          st = (if year > 0 then
                  (let investment_return = current_net_worth st * expected_return
                   in st\<lparr> current_net_worth :=
                            current_net_worth st + (investment_return + st_annual_savings st) \<rparr>)
                else st)
      in net_worth_entry profile year st # net_worth_loop profile expected_return years st)"

text \<open>The parameter \<^verbatim>\<open>portfolio_allocation\<close> is not read by the function.\<close>

definition project_net_worth ::
  "UserProfile \<Rightarrow> allocation \<Rightarrow> int option \<Rightarrow> net_worth_row list" where
  "project_net_worth profile portfolio_allocation years =
     (let years = horizon profile years;
          current_net_worth = current_savings profile - total_debt profile;
          annual_income = annual_income profile;
          annual_expenses = monthly_expenses profile * 12;
          expected_return = dict_get market_return_estimates (risk_tolerance profile) 0.07;
          annual_savings = annual_income - annual_expenses
      in net_worth_loop profile expected_return (py_range (years + 1))
           \<lparr> current_net_worth = current_net_worth,
             st_annual_income = annual_income,
             st_annual_expenses = annual_expenses,
             st_annual_savings = annual_savings \<rparr>)"

text \<open>
  The recurrence of the specification, by year: the state of year 0, and the state of
  a later year from the state of the year before it.
\<close>

definition spec_expected_return :: "string \<Rightarrow> real" where
  "spec_expected_return r =
     (if r = ''conservative'' then 0.05
      else if r = ''moderate'' then 0.07
      else if r = ''aggressive'' then 0.09
      else 0.07)"

fun spec_net_worth_state :: "UserProfile \<Rightarrow> nat \<Rightarrow> nw_state" where
  "spec_net_worth_state p 0 =
     \<lparr> current_net_worth = current_savings p - total_debt p,
       st_annual_income = annual_income p,
       st_annual_expenses = monthly_expenses p * 12,
       st_annual_savings = annual_income p - monthly_expenses p * 12 \<rparr>"
| "spec_net_worth_state p (Suc y) =
     (let before = spec_net_worth_state p y;
          income = st_annual_income before * (1 + expected_income_growth p / 100);
          expenses = st_annual_expenses before * (1 + 0.03);
          savings = income - expenses;
          state = current_net_worth before
                  + current_net_worth before * spec_expected_return (risk_tolerance p)
                  + savings
      in \<lparr> current_net_worth = state,
           st_annual_income = income,
           st_annual_expenses = expenses,
           st_annual_savings = savings \<rparr>)"

subsection \<open>project\_income\<close>




subsection \<open>project\_dividends\<close>











subsection \<open>project\_portfolio\_returns\<close>




subsection \<open>calculate\_retirement\_readiness\<close>

text \<open>
  \<^verbatim>\<open>xs[i]\<close>: a negative index counts from the end, and an index outside the list
  raises \<^verbatim>\<open>IndexError\<close>.
\<close>

definition py_index :: "'a list \<Rightarrow> int \<Rightarrow> py_error + 'a" where
  "py_index xs i =
     (if i < - int (length xs) \<or> int (length xs) \<le> i then Inl IndexError
      else if i < 0 then Inr (xs ! nat (int (length xs) + i))
      else Inr (xs ! nat i))"

record retirement_readiness =
  retirement_net_worth :: real
  estimated_annual_expenses :: real
  safe_annual_withdrawal :: real
  replacement_ratio :: real
  retirement_goal :: real
  on_track :: bool
  surplus_shortfall :: real

definition calculate_retirement_readiness ::
  "UserProfile \<Rightarrow> net_worth_row list \<Rightarrow> py_error + retirement_readiness" where
  "calculate_retirement_readiness profile net_worth_projections =
     (let retirement_year = years_to_retirement profile
      in case (if retirement_year \<ge> int (length net_worth_projections)
               then py_index net_worth_projections (- 1)
               else py_index net_worth_projections retirement_year) of
           Inl e \<Rightarrow> Inl e
         | Inr row \<Rightarrow>
             (let retirement_net_worth = nw_net_worth row;
                  years_to_retirement = years_to_retirement profile;
                  retirement_expenses = monthly_expenses profile * 12 * 0.80;
                  retirement_expenses =
                    retirement_expenses * ((1 + inflation_rate) powi years_to_retirement);
                  safe_annual_withdrawal = retirement_net_worth * 0.04;
                  replacement_ratio =
                    (if retirement_expenses > 0
                     then (safe_annual_withdrawal / retirement_expenses) * 100
                     else 100);
                  retirement_goal = retirement_expenses * 25
              in Inr \<lparr> retirement_net_worth = py_round retirement_net_worth 2,
                       estimated_annual_expenses = py_round retirement_expenses 2,
                       safe_annual_withdrawal = py_round safe_annual_withdrawal 2,
                       replacement_ratio = py_round replacement_ratio 1,
                       retirement_goal = py_round retirement_goal 2,
                       on_track = (retirement_net_worth \<ge> retirement_goal * 0.8),
                       surplus_shortfall =
                         py_round (retirement_net_worth - retirement_goal) 2 \<rparr>))"




definition already_retired :: UserProfile where
  "already_retired = demo_moderate\<lparr> years_to_retirement := - 2 \<rparr>"

section \<open>Rounding facts\<close>


lemma round_half_even_of_int: "round_half_even (of_int k) = k"
  by (simp add: round_half_even_def)


lemma py_round_of_int: "py_round (of_int k) n = of_int k"
proof -
  have "of_int k * (10::real) ^ n = of_int (k * 10 ^ n)" by simp
  then have "round_half_even (of_int k * 10 ^ n) = k * 10 ^ n"
    using round_half_even_of_int by metis
  then show ?thesis by (simp add: py_round_def)
qed


section \<open>Allocation\<close>

lemma adjustment_eq:
  "dict_get risk_adjustments r 0 = spec_adjustment r"
  by (simp add: dict_get_def risk_adjustments_def spec_adjustment_def)

lemma stocks_clamped:
  "stocks (determine_allocation p)
     = clamp ((110 - age p) + spec_adjustment (risk_tolerance p)) 30 90"
  by (simp add: determine_allocation_def Let_def adjustment_eq py_round_int_def clamp_def)

lemma bonds_complement:
  "bonds (determine_allocation p) = 100 - stocks (determine_allocation p)"
  by (simp add: determine_allocation_def Let_def py_round_int_def)

lemma allocation_scenario:
  "stocks (determine_allocation (p\<lparr>age := a, risk_tolerance := r\<rparr>))
     = clamp ((110 - a) + spec_adjustment r) 30 90"
  "bonds (determine_allocation (p\<lparr>age := a, risk_tolerance := r\<rparr>))
     = 100 - clamp ((110 - a) + spec_adjustment r) 30 90"
  by (simp_all add: stocks_clamped bonds_complement)

text \<open>
  Claim C2. For every age (so for every age from 18 to 100) and every risk tolerance,
  the stock percentage is \<open>(110 - age) + adjustment\<close> clamped to \<open>[30, 90]\<close>, the
  adjustment being \<open>-15\<close> for conservative, \<open>+15\<close> for aggressive and \<open>0\<close> for moderate
  and for every other value; the bond percentage is \<open>100\<close> minus the stock percentage,
  so the two add up to \<open>100\<close> and the stock percentage lies between \<open>30\<close> and \<open>90\<close>.
  The four scenarios of the specification give 72/28, 90/10, 43/57 and 30/70.
\<close>

theorem allocation_stocks_bonds:
  "stocks (determine_allocation p)
     = clamp ((110 - age p) + spec_adjustment (risk_tolerance p)) 30 90
   \<and> bonds (determine_allocation p) = 100 - stocks (determine_allocation p)
   \<and> stocks (determine_allocation p) + bonds (determine_allocation p) = 100
   \<and> 30 \<le> stocks (determine_allocation p)
   \<and> stocks (determine_allocation p) \<le> 90
   \<and> stocks (determine_allocation (p\<lparr>age := 38, risk_tolerance := ''moderate''\<rparr>)) = 72
   \<and> bonds (determine_allocation (p\<lparr>age := 38, risk_tolerance := ''moderate''\<rparr>)) = 28
   \<and> stocks (determine_allocation (p\<lparr>age := 28, risk_tolerance := ''aggressive''\<rparr>)) = 90
   \<and> bonds (determine_allocation (p\<lparr>age := 28, risk_tolerance := ''aggressive''\<rparr>)) = 10
   \<and> stocks (determine_allocation (p\<lparr>age := 52, risk_tolerance := ''conservative''\<rparr>)) = 43
   \<and> bonds (determine_allocation (p\<lparr>age := 52, risk_tolerance := ''conservative''\<rparr>)) = 57
   \<and> stocks (determine_allocation (p\<lparr>age := 67, risk_tolerance := ''conservative''\<rparr>)) = 30
   \<and> bonds (determine_allocation (p\<lparr>age := 67, risk_tolerance := ''conservative''\<rparr>)) = 70"
proof -
  have general:
    "stocks (determine_allocation p)
       = clamp ((110 - age p) + spec_adjustment (risk_tolerance p)) 30 90"
    "bonds (determine_allocation p) = 100 - stocks (determine_allocation p)"
    "stocks (determine_allocation p) + bonds (determine_allocation p) = 100"
    "30 \<le> stocks (determine_allocation p)"
    "stocks (determine_allocation p) \<le> 90"
    by (simp_all add: stocks_clamped bonds_complement clamp_def)
  have moderate38:
    "stocks (determine_allocation (p\<lparr>age := 38, risk_tolerance := ''moderate''\<rparr>)) = 72"
    "bonds (determine_allocation (p\<lparr>age := 38, risk_tolerance := ''moderate''\<rparr>)) = 28"
    by (simp_all add: allocation_scenario clamp_def spec_adjustment_def)
  have aggressive28:
    "stocks (determine_allocation (p\<lparr>age := 28, risk_tolerance := ''aggressive''\<rparr>)) = 90"
    "bonds (determine_allocation (p\<lparr>age := 28, risk_tolerance := ''aggressive''\<rparr>)) = 10"
    by (simp_all add: allocation_scenario clamp_def spec_adjustment_def)
  have conservative52:
    "stocks (determine_allocation (p\<lparr>age := 52, risk_tolerance := ''conservative''\<rparr>)) = 43"
    "bonds (determine_allocation (p\<lparr>age := 52, risk_tolerance := ''conservative''\<rparr>)) = 57"
    by (simp_all add: allocation_scenario clamp_def spec_adjustment_def)
  have conservative67:
    "stocks (determine_allocation (p\<lparr>age := 67, risk_tolerance := ''conservative''\<rparr>)) = 30"
    "bonds (determine_allocation (p\<lparr>age := 67, risk_tolerance := ''conservative''\<rparr>)) = 70"
    by (simp_all add: allocation_scenario clamp_def spec_adjustment_def)
  from general moderate38 aggressive28 conservative52 conservative67
  show ?thesis by (intro conjI)
qed



section \<open>Stock scores\<close>

lemma beta_step_conservative:
  "(if b < 0.8 then x + 10 else if b > 1.2 then x - 10 else x)
     = x + bonus (b < 0.8) 10 + bonus (b > 1.2) (- 10)" for b x :: real
  by (simp add: bonus_def)

lemma bonus_step: "(if c then x + pts else x) = x + bonus c pts"
  by (simp add: bonus_def)

lemma bonus_simps: "bonus False pts = 0" "bonus True pts = pts" "bonus c 0 = 0"
  by (simp_all add: bonus_def)

lemma pe_step:
  "(if 10 \<le> pe \<and> pe \<le> 25 then x + 10 else if pe > 40 then x - 5 else x)
     = x + bonus (10 \<le> pe \<and> pe \<le> 25) 10 + bonus (pe > 40) (- 5)" for pe x :: real
  by (simp add: bonus_def)

lemma cap_step:
  "(if m > 100000000000 then (if c then x + 10 else x)
    else if m < 10000000000 then (if a then x + 5 else x)
    else x)
     = x + bonus (m > 100000000000 \<and> c) 10 + bonus (m < 10000000000 \<and> a) 5"
  for m x :: real
  by (simp add: bonus_def)

lemma score_before_return_eq:
  "score_before_return s p = spec_score s p"
proof -
  have dy: "truthy_and (dividend_yield s) (\<lambda>d. d > 0.02) = (spec_dividend_yield s > 0.02)"
    "truthy_and (dividend_yield s) (\<lambda>d. d > 0.015) = (spec_dividend_yield s > 0.015)"
    by (auto simp: truthy_and_def spec_dividend_yield_def split: option.splits)
  have pe: "truthy_and (pe_ratio s) (\<lambda>pe. 10 \<le> pe \<and> pe \<le> 25)
              = (10 \<le> spec_pe_ratio s \<and> spec_pe_ratio s \<le> 25)"
    "truthy_and (pe_ratio s) (\<lambda>pe. pe > 40) = (spec_pe_ratio s > 40)"
    by (auto simp: truthy_and_def spec_pe_ratio_def split: option.splits)
  show ?thesis
    unfolding score_before_return_def Let_def dy pe
      spec_beta_def [symmetric] spec_market_cap_def [symmetric]
      beta_step_conservative pe_step cap_step bonus_step
    by (auto simp: spec_score_def bonus_simps)
qed

lemma bonus_Ints: "pts \<in> \<int> \<Longrightarrow> bonus c pts \<in> \<int>"
  by (simp add: bonus_def)

lemma spec_score_Ints: "spec_score s p \<in> \<int>"
  unfolding spec_score_def by (intro Ints_add bonus_Ints) (simp_all add: bonus_Ints)

lemma py_round_Ints: "x \<in> \<int> \<Longrightarrow> py_round x n = x"
  by (auto elim!: Ints_cases simp: py_round_of_int)

lemma spec_score_ge: "35 \<le> spec_score s p"
proof -
  define R where "R =
     (if risk_tolerance p = ''conservative'' then
          bonus (spec_beta s < 0.8) 10 + bonus (spec_beta s > 1.2) (- 10)
          + bonus (spec_dividend_yield s > 0.02) 15
        else if risk_tolerance p = ''aggressive'' then
          bonus (spec_beta s > 1.2) 10 + 5
        else
          bonus (0.8 \<le> spec_beta s \<and> spec_beta s \<le> 1.2) 10
          + bonus (spec_dividend_yield s > 0.015) 10)"
  have pos: "0 \<le> bonus c 10" "0 \<le> bonus c 15" "0 \<le> bonus c 5" for c
    by (simp_all add: bonus_def)
  have neg: "- 10 \<le> bonus c (- 10)" "- 5 \<le> bonus c (- 5)" for c
    by (simp_all add: bonus_def)
  have R: "- 10 \<le> R"
  proof (cases "risk_tolerance p = ''conservative''")
    case True
    have "- 10 \<le> bonus (spec_beta s < 0.8) 10 + bonus (spec_beta s > 1.2) (- 10)
          + bonus (spec_dividend_yield s > 0.02) 15"
      using pos(1) [of "spec_beta s < 0.8"] neg(1) [of "spec_beta s > 1.2"]
        pos(2) [of "spec_dividend_yield s > 0.02"] by linarith
    with True show ?thesis by (simp add: R_def)
  next
    case False
    show ?thesis
    proof (cases "risk_tolerance p = ''aggressive''")
      case True
      with False pos(1) [of "spec_beta s > 1.2"] show ?thesis
        by (simp add: R_def)
    next
      case nagg: False
      have "- 10 \<le> bonus (0.8 \<le> spec_beta s \<and> spec_beta s \<le> 1.2) 10
          + bonus (spec_dividend_yield s > 0.015) 10"
        using pos(1) [of "0.8 \<le> spec_beta s \<and> spec_beta s \<le> 1.2"]
          pos(1) [of "spec_dividend_yield s > 0.015"] by linarith
      with False nagg show ?thesis by (simp add: R_def)
    qed
  qed
  have "spec_score s p = 50
     + bonus (lower (sector s) \<in> lower ` set (preferred_sectors p)) 15
     + R
     + bonus (10 \<le> spec_pe_ratio s \<and> spec_pe_ratio s \<le> 25) 10
     + bonus (spec_pe_ratio s > 40) (- 5)
     + bonus (spec_market_cap s > 100000000000 \<and> risk_tolerance p = ''conservative'') 10
     + bonus (spec_market_cap s < 10000000000 \<and> risk_tolerance p = ''aggressive'') 5"
    by (simp only: spec_score_def R_def)
  with R pos(2) [of "lower (sector s) \<in> lower ` set (preferred_sectors p)"]
    pos(1) [of "10 \<le> spec_pe_ratio s \<and> spec_pe_ratio s \<le> 25"]
    neg(2) [of "spec_pe_ratio s > 40"]
    pos(1) [of "spec_market_cap s > 100000000000 \<and> risk_tolerance p = ''conservative''"]
    pos(3) [of "spec_market_cap s < 10000000000 \<and> risk_tolerance p = ''aggressive''"]
  show ?thesis by linarith
qed


lemma recommendations_loop_eq:
  "recommendations_loop p stock_data = positively_scored p stock_data"
  by (induction p stock_data rule: recommendations_loop.induct)
     (simp_all add: positively_scored_def Let_def)








lemma score_stock_eq: "score_stock s p = spec_score s p"
  by (simp add: score_stock_def score_before_return_eq py_round_Ints spec_score_Ints)


lemma score_stock_positive: "0 < score_stock s p"
  using spec_score_ge [of s p] by (simp add: score_stock_eq)

lemma positively_scored_all:
  "positively_scored p stock_data
     = map (\<lambda>s. recommendation_of s p (score_stock s p)) (candidates stock_data)"
  by (simp add: positively_scored_def score_stock_positive)




lemma length_ranked:
  "length (py_sort_reverse rec_score (recommendations_loop p stock_data))
     = length (candidates stock_data)"
  by (simp add: py_sort_reverse_def recommendations_loop_eq positively_scored_all)

lemma length_generate:
  "length (generate_stock_recommendations p stock_data n)
     = (if n < 0 then nat (int (length (candidates stock_data)) + n)
        else min (length (candidates stock_data)) (nat n))"
proof -
  have "length (generate_stock_recommendations p stock_data n)
     = length (py_slice_to (py_sort_reverse rec_score (recommendations_loop p stock_data)) n)"
    by (simp add: generate_stock_recommendations_def)
  also have "\<dots> = (if n < 0 then nat (int (length (candidates stock_data)) + n)
        else min (length (candidates stock_data)) (nat n))"
    by (auto simp: py_slice_to_def length_ranked)
  finally show ?thesis .
qed


text \<open>
  Outside the counts: \<^verbatim>\<open>num_picks\<close> is an \<^verbatim>\<open>int\<close>, and for a negative one the slice
  \<^verbatim>\<open>ranked[:-1]\<close> is \<open>ranked\<close> without its last entry.
\<close>

lemma negative_count_drops_last:
  "length (generate_stock_recommendations demo_moderate
        [Some volatile_stock, None, Some volatile_stock] (- 1)) = 1
   \<and> \<not> int (length (generate_stock_recommendations demo_moderate
        [Some volatile_stock, None, Some volatile_stock] (- 1))) \<le> - 1"
  by (simp add: length_generate)

section \<open>Net worth\<close>

lemma expected_return_eq:
  "dict_get market_return_estimates r 0.07 = spec_expected_return r"
  by (simp add: dict_get_def market_return_estimates_def spec_expected_return_def)


lemma nw_state_updates:
  "st\<lparr> st_annual_income := a, st_annual_expenses := b, st_annual_savings := c,
       current_net_worth := d \<rparr>
     = \<lparr> current_net_worth = d, st_annual_income = a, st_annual_expenses = b,
         st_annual_savings = c \<rparr>"
  by (cases st) simp

lemma net_worth_loop_Suc:
  "net_worth_loop p (spec_expected_return (risk_tolerance p)) (Suc k # ys)
       (spec_net_worth_state p k)
     = net_worth_entry p (Suc k) (spec_net_worth_state p (Suc k))
       # net_worth_loop p (spec_expected_return (risk_tolerance p)) ys
           (spec_net_worth_state p (Suc k))"
  by (simp add: Let_def inflation_rate_def nw_state_updates add.assoc)

lemma net_worth_loop_later:
  "net_worth_loop p (spec_expected_return (risk_tolerance p)) [Suc k..<Suc k + d]
       (spec_net_worth_state p k)
     = map (\<lambda>y. net_worth_entry p y (spec_net_worth_state p y)) [Suc k..<Suc k + d]"
proof (induction d arbitrary: k)
  case 0
  then show ?case by simp
next
  case (Suc d)
  have range: "[Suc k..<Suc k + Suc d] = Suc k # [Suc (Suc k)..<Suc (Suc k) + d]"
    by (simp add: upt_rec)
  show ?case
    unfolding range net_worth_loop_Suc list.map Suc.IH ..
qed

lemma net_worth_loop_all:
  "net_worth_loop p (spec_expected_return (risk_tolerance p)) [0..<n] (spec_net_worth_state p 0)
     = map (\<lambda>y. net_worth_entry p y (spec_net_worth_state p y)) [0..<n]"
proof (cases n)
  case 0
  then show ?thesis by simp
next
  case (Suc m)
  have "[0..<Suc m] = 0 # [Suc 0..<Suc 0 + m]"
    by (simp add: upt_rec)
  then show ?thesis
    using net_worth_loop_later [of p 0 m] Suc by simp
qed

lemma project_net_worth_map:
  "project_net_worth p portfolio_allocation years
     = map (\<lambda>y. net_worth_entry p y (spec_net_worth_state p y))
         [0..<nat (horizon p years + 1)]"
proof -
  have "project_net_worth p portfolio_allocation years
     = net_worth_loop p (spec_expected_return (risk_tolerance p))
         [0..<nat (horizon p years + 1)] (spec_net_worth_state p 0)"
    unfolding project_net_worth_def Let_def expected_return_eq py_range_def by simp
  then show ?thesis
    by (simp only: net_worth_loop_all)
qed


section \<open>Year 0\<close>











section \<open>Dividends\<close>











section \<open>Retirement readiness\<close>






text \<open>
  Outside the indices: for a profile whose \<open>years_to_retirement\<close> is \<open>-2\<close> and the
  one-entry projection \<^verbatim>\<open>project_net_worth(profile, allocation, years=0)\<close>, the index
  \<open>-2\<close> is before the start of the list and the function raises \<^verbatim>\<open>IndexError\<close>.
\<close>

lemma retirement_index_before_start:
  "project_net_worth already_retired (determine_allocation already_retired) (Some 0) \<noteq> []
   \<and> calculate_retirement_readiness already_retired
       (project_net_worth already_retired (determine_allocation already_retired) (Some 0))
     = Inl IndexError"
proof -
  have "length (project_net_worth already_retired (determine_allocation already_retired) (Some 0))
          = 1"
    by (simp add: project_net_worth_map horizon_def)
  then show ?thesis
    by (auto simp: calculate_retirement_readiness_def Let_def py_index_def already_retired_def)
qed

section \<open>Profile analysis\<close>





end
